theory Spec2Isabelle
  imports Main "HOL-Library.Sublist" "HOL-Library.Word"
begin

section \<open>Frontend middleware (frontend/middleware.ts)\<close>

text \<open>
  The middleware sees the request URL and the session the identity provider's client
  returns for the request's cookies. Only two things of the URL are used: the path
  (\<open>req.nextUrl.pathname\<close>) is inspected, and the whole URL (\<open>req.url\<close>) is the base
  against which the redirect target \<open>'/login'\<close> is resolved. Resolving an absolute path
  against a base keeps the base's origin and drops its path, query and fragment.
\<close>

record NextRequest =
  origin :: string
  pathname :: string
  search :: string

record URL =
  url_origin :: string
  url_pathname :: string
  url_search :: string

datatype NextResponse = Next_response | Redirect_response URL

text \<open>\<open>new URL(path, base)\<close> for a path that starts with a slash.\<close>

definition new_URL :: "string \<Rightarrow> NextRequest \<Rightarrow> URL" where
  "new_URL path req = \<lparr>url_origin = origin req, url_pathname = path, url_search = []\<rparr>"

text \<open>\<open>String.prototype.startsWith\<close>: the first \<open>length route\<close> characters are the route.\<close>

definition startsWith :: "string \<Rightarrow> string \<Rightarrow> bool" where
  "startsWith s route = (take (length route) s = route)"

definition publicRoutes :: "string list" where
  "publicRoutes = [''/login'', ''/signup'', ''/auth/callback'']"

definition middleware :: "NextRequest \<Rightarrow> 'session option \<Rightarrow> NextResponse" where
  "middleware req session =
     (let res = Next_response;
          isPublicRoute = list_ex (\<lambda>route. startsWith (pathname req) route) publicRoutes
      in if session = None \<and> \<not> isPublicRoute \<and> pathname req \<noteq> ''/''
         then Redirect_response (new_URL ''/login'' req)
         else res)"

section \<open>The dashboard's deploy action (handleDeploy)\<close>

text \<open>
  \<open>handleDeploy\<close> is an async function of the Templates component; it exists twice, in
  unnamed/part_001 (the API base comes from \<open>process.env.NEXT_PUBLIC_API_URL\<close>, requests
  are logged) and in frontend/app/templates/page.tsx (the base is the literal
  \<open>http://localhost:8000\<close>, nothing is logged). Its observable behaviour is the sequence
  of effects it performs: alerts, updates of the \<open>deploying\<close> state, console output and
  the awaited calls. Everything it awaits belongs to the browser and the network, so their
  outcomes are parameters: an awaited promise either rejects with an error (\<open>Inl\<close> of the
  error's message) or resolves.
\<close>

record Session =
  access_token :: string

record fetch_call =
  fc_url :: string
  fc_method :: string
  fc_headers :: "(string \<times> string) list"
  fc_body :: "(string \<times> string) list"

text \<open>
  \<open>fc_body\<close> is the object handed to \<open>JSON.stringify\<close>, as its key/value pairs in
  order. A parsed response body is only ever read through its \<open>url\<close> property: reading
  it off \<open>null\<close> raises a TypeError; any other value \<open>JValue u\<close> yields the property,
  \<open>u\<close> being the text it prints as, or \<open>undefined\<close> when there is none (\<open>None\<close>).
\<close>

datatype json_value = JNull | JValue "string option"

record Response =
  ok :: bool
  json :: "string + json_value"

text \<open>
  What a run depends on: the component's \<open>user\<close> state; the outcome of
  \<open>supabase.auth.getSession()\<close>, a session or \<open>null\<close>; the outcome of \<open>fetch\<close> for
  each request; and the message of the TypeError the engine raises for a property read
  off \<open>null\<close>. A response carries its \<open>ok\<close> flag and the outcome of \<open>json()\<close>.
\<close>

record 'u browser =
  user :: "'u option"
  getSession :: "string + Session option"
  fetch :: "fetch_call \<Rightarrow> string + Response"
  null_property_error :: string

datatype event =
    Alert string
  | SetDeploying "string option"
  | Console_log string string "(string \<times> string) list"
  | Await_getSession
  | Await_fetch fetch_call

text \<open>A template literal prints a missing value as \<open>undefined\<close>.\<close>

definition template_literal :: "string option \<Rightarrow> string" where
  "template_literal v = (case v of None \<Rightarrow> ''undefined'' | Some s \<Rightarrow> s)"

text \<open>The default parameter \<open>tier: string = 'basic'\<close>.\<close>

definition default_tier :: "string option \<Rightarrow> string" where
  "default_tier tier = (case tier of None \<Rightarrow> ''basic'' | Some t \<Rightarrow> t)"

text \<open>The options object both requests are sent with.\<close>

definition post_json :: "string \<Rightarrow> Session option \<Rightarrow> (string \<times> string) list \<Rightarrow> fetch_call" where
  "post_json url session payload =
     \<lparr>fc_url = url,
      fc_method = ''POST'',
      fc_headers = [(''Content-Type'', ''application/json''),
                    (''Authorization'', ''Bearer '' @ template_literal (map_option access_token session))],
      fc_body = payload\<rparr>"

text \<open>The \<open>catch\<close> block.\<close>

definition catch_block :: "string \<Rightarrow> event list" where
  "catch_block message = [Alert (''Error: '' @ message)]"

text \<open>unnamed/part_001, lines 43 to 103.\<close>

definition handleDeploy :: "string option \<Rightarrow> 'u browser \<Rightarrow> string \<Rightarrow> string option \<Rightarrow> event list" where
  "handleDeploy API_URL b templateId tier_arg =
     (let tier = default_tier tier_arg in
      if user b = None then [Alert ''Please sign in first'']
      else
        SetDeploying (Some templateId) #
        Await_getSession #
        (case getSession b of
           Inl message \<Rightarrow> catch_block message
         | Inr session \<Rightarrow>
             (let subscriptionPayload =
                    [(''plan_type'', templateId @ ''-'' @ tier),
                     (''payment_method_id'', ''pm_card_visa'')];
                  subscriptionUrl = template_literal API_URL @ ''/create-subscription'';
                  subscriptionRequest = post_json subscriptionUrl session subscriptionPayload
              in
                Console_log ''Sending subscription request:'' subscriptionUrl subscriptionPayload #
                Await_fetch subscriptionRequest #
                (case fetch b subscriptionRequest of
                   Inl message \<Rightarrow> catch_block message
                 | Inr subscriptionResponse \<Rightarrow>
                     if \<not> ok subscriptionResponse
                     then catch_block ''Failed to create subscription''
                     else
                       (case json subscriptionResponse of
                          Inl message \<Rightarrow> catch_block message
                        | Inr subscriptionData \<Rightarrow>
                            (let deployPayload =
                                   [(''template_id'', templateId @ ''-'' @ tier),
                                    (''payment_method_id'', ''pm_card_visa'')];
                                 deployUrl = template_literal API_URL @ ''/deploy'';
                                 deployRequest = post_json deployUrl session deployPayload
                             in
                               Console_log ''Sending deploy request:'' deployUrl deployPayload #
                               Await_fetch deployRequest #
                               (case fetch b deployRequest of
                                  Inl message \<Rightarrow> catch_block message
                                | Inr deployResponse \<Rightarrow>
                                    if \<not> ok deployResponse
                                    then catch_block ''Failed to deploy''
                                    else
                                      (case json deployResponse of
                                         Inl message \<Rightarrow> catch_block message
                                       | Inr deployData \<Rightarrow>
                                           (case deployData of
                                              JNull \<Rightarrow> catch_block (null_property_error b)
                                            | JValue url \<Rightarrow>
                                                [Alert (''Deployment started! URL: ''
                                                        @ template_literal url)]))))))))
        @ [SetDeploying None])"

text \<open>frontend/app/templates/page.tsx, lines 41 to 97.\<close>

definition handleDeploy_page :: "'u browser \<Rightarrow> string \<Rightarrow> string option \<Rightarrow> event list" where
  "handleDeploy_page b templateId tier_arg =
     (let tier = default_tier tier_arg in
      if user b = None then [Alert ''Please sign in first'']
      else
        SetDeploying (Some templateId) #
        Await_getSession #
        (case getSession b of
           Inl message \<Rightarrow> catch_block message
         | Inr session \<Rightarrow>
             (let subscriptionRequest =
                    post_json ''http://localhost:8000/create-subscription'' session
                      [(''plan_type'', templateId @ ''-'' @ tier),
                       (''payment_method_id'', ''pm_card_visa'')]
              in
                Await_fetch subscriptionRequest #
                (case fetch b subscriptionRequest of
                   Inl message \<Rightarrow> catch_block message
                 | Inr subscriptionResponse \<Rightarrow>
                     if \<not> ok subscriptionResponse
                     then catch_block ''Failed to create subscription''
                     else
                       (case json subscriptionResponse of
                          Inl message \<Rightarrow> catch_block message
                        | Inr subscriptionData \<Rightarrow>
                            (let deployRequest =
                                   post_json ''http://localhost:8000/deploy'' session
                                     [(''template_id'', templateId @ ''-'' @ tier),
                                      (''payment_method_id'', ''pm_card_visa'')]
                             in
                               Await_fetch deployRequest #
                               (case fetch b deployRequest of
                                  Inl message \<Rightarrow> catch_block message
                                | Inr deployResponse \<Rightarrow>
                                    if \<not> ok deployResponse
                                    then catch_block ''Failed to deploy''
                                    else
                                      (case json deployResponse of
                                         Inl message \<Rightarrow> catch_block message
                                       | Inr deployData \<Rightarrow>
                                           (case deployData of
                                              JNull \<Rightarrow> catch_block (null_property_error b)
                                            | JValue url \<Rightarrow>
                                                [Alert (''Deployment started! URL: ''
                                                        @ template_literal url)]))))))))
        @ [SetDeploying None])"

text \<open>The requests a run sends, in order.\<close>

fun fetch_calls :: "event list \<Rightarrow> fetch_call list" where
  "fetch_calls [] = []"
| "fetch_calls (Await_fetch c # es) = c # fetch_calls es"
| "fetch_calls (_ # es) = fetch_calls es"

text \<open>
  A browser in which everything succeeds, and one whose backend answers every request
  with a non-ok status; they serve as concrete runs.
\<close>

definition example_browser :: "unit browser" where
  "example_browser =
     \<lparr>user = Some (),
      getSession = Inr (Some \<lparr>access_token = ''tok''\<rparr>),
      fetch = (\<lambda>c. Inr \<lparr>ok = True, json = Inr (JValue (Some ''https://d.example''))\<rparr>),
      null_property_error = ''Cannot read properties of null''\<rparr>"

definition refusing_browser :: "unit browser" where
  "refusing_browser =
     example_browser\<lparr>fetch := (\<lambda>c. Inr \<lparr>ok = False, json = Inl ''Unexpected end of JSON input''\<rparr>)\<rparr>"

section \<open>The persisted schema (database.sql)\<close>

subsection \<open>Tables\<close>

text \<open>
  One record per table, one field per column, in the order of the \<open>CREATE TABLE\<close>
  statements. A column declared \<open>NOT NULL\<close> (or \<open>PRIMARY KEY\<close>) has the column's type;
  any other column is nullable and has an \<open>option\<close> type, \<open>None\<close> being SQL's \<open>NULL\<close>.
  \<open>UUID\<close> is a 128-bit value, \<open>TIMESTAMPTZ\<close> a number of microseconds, \<open>BIGSERIAL\<close> an
  integer, \<open>TEXT\<close> a string and \<open>JSONB\<close> the text of a JSON document. Rows are values
  after the column defaults (\<open>uuid_generate_v4()\<close>, \<open>NOW()\<close>, \<open>FALSE\<close>, the sequence)
  have been filled in.
\<close>

type_synonym uuid = "128 word"
type_synonym timestamptz = int

record user_profile =
  up_id :: uuid
  up_email :: string
  up_full_name :: "string option"
  up_created_at :: "timestamptz option"
  up_updated_at :: "timestamptz option"

record subscription =
  sub_id :: uuid
  sub_user_id :: uuid
  sub_user_email :: string
  sub_stripe_subscription_id :: string
  sub_plan_type :: string
  sub_status :: string
  sub_created_at :: "timestamptz option"
  sub_updated_at :: "timestamptz option"

record deployment =
  dep_id :: uuid
  dep_user_id :: uuid
  dep_user_email :: string
  dep_template_id :: string
  dep_droplet_id :: "string option"
  dep_url :: "string option"
  dep_status :: "string option"
  dep_created_at :: "timestamptz option"
  dep_updated_at :: "timestamptz option"
  dep_subscription_id :: "uuid option"
  dep_auto_update_enabled :: "bool option"
  dep_update_schedule :: "string option"

record update_history_entry =
  uh_id :: int
  uh_deployment_id :: "uuid option"
  uh_updated_at :: "timestamptz option"
  uh_details :: "string option"

text \<open>
  The state of the store. \<open>auth_users\<close> are the keys of the identity provider's
  \<open>auth.users\<close> table, which \<open>user_profiles.id\<close> references.
\<close>

record database =
  auth_users :: "uuid list"
  user_profiles :: "user_profile list"
  subscriptions :: "subscription list"
  deployments :: "deployment list"
  update_history :: "update_history_entry list"

subsection \<open>Roles and row-level security\<close>

text \<open>
  A statement runs under a database role. \<open>auth.uid()\<close> is the identifier in the
  caller's token: the user's for an authenticated caller, \<open>NULL\<close> otherwise. Row-level
  security does not apply to a role with the \<open>BYPASSRLS\<close> attribute, which is what the
  key named \<open>SUPABASE_SERVICE_KEY\<close> in the backend's configuration stands for.
\<close>

datatype role = Anon | Authenticated uuid | Service_role

fun auth_uid :: "role \<Rightarrow> uuid option" where
  "auth_uid (Authenticated u) = Some u"
| "auth_uid Anon = None"
| "auth_uid Service_role = None"

fun bypassrls :: "role \<Rightarrow> bool" where
  "bypassrls Service_role = True"
| "bypassrls _ = False"

text \<open>
  SQL's \<open>=\<close> is three-valued, and a policy admits a row only when its expression is
  true: a comparison with \<open>NULL\<close> admits nothing.
\<close>

definition sql_eq_true :: "'a option \<Rightarrow> 'a option \<Rightarrow> bool" where
  "sql_eq_true a b = (a \<noteq> None \<and> b \<noteq> None \<and> a = b)"

datatype command = SELECT | INSERT | UPDATE | DELETE

record 'row policy =
  policy_name :: string
  policy_for :: command
  policy_using :: "(role \<Rightarrow> database \<Rightarrow> 'row \<Rightarrow> bool) option"
  policy_with_check :: "(role \<Rightarrow> database \<Rightarrow> 'row \<Rightarrow> bool) option"

text \<open>The \<open>CREATE POLICY\<close> statements, table by table, in the order of the file.\<close>

definition user_profiles_policies :: "user_profile policy list" where
  "user_profiles_policies =
     [\<lparr>policy_name = ''Users can view their own profile'',
       policy_for = SELECT,
       policy_using = Some (\<lambda>role db r. sql_eq_true (auth_uid role) (Some (up_id r))),
       policy_with_check = None\<rparr>,
      \<lparr>policy_name = ''Users can update their own profile'',
       policy_for = UPDATE,
       policy_using = Some (\<lambda>role db r. sql_eq_true (auth_uid role) (Some (up_id r))),
       policy_with_check = None\<rparr>]"

definition subscriptions_policies :: "subscription policy list" where
  "subscriptions_policies =
     [\<lparr>policy_name = ''Users can view their own subscriptions'',
       policy_for = SELECT,
       policy_using = Some (\<lambda>role db r. sql_eq_true (auth_uid role) (Some (sub_user_id r))),
       policy_with_check = None\<rparr>,
      \<lparr>policy_name = ''Users can create their own subscriptions'',
       policy_for = INSERT,
       policy_using = None,
       policy_with_check = Some (\<lambda>role db r. sql_eq_true (auth_uid role) (Some (sub_user_id r)))\<rparr>]"

definition deployments_policies :: "deployment policy list" where
  "deployments_policies =
     [\<lparr>policy_name = ''Users can view their own deployments'',
       policy_for = SELECT,
       policy_using = Some (\<lambda>role db r. sql_eq_true (auth_uid role) (Some (dep_user_id r))),
       policy_with_check = None\<rparr>,
      \<lparr>policy_name = ''Users can create their own deployments'',
       policy_for = INSERT,
       policy_using = None,
       policy_with_check = Some (\<lambda>role db r. sql_eq_true (auth_uid role) (Some (dep_user_id r)))\<rparr>,
      \<lparr>policy_name = ''Users can update their own deployments'',
       policy_for = UPDATE,
       policy_using = Some (\<lambda>role db r. sql_eq_true (auth_uid role) (Some (dep_user_id r))),
       policy_with_check = None\<rparr>]"

text \<open>
  The policy on \<open>update_history\<close> looks the parent up in \<open>deployments\<close>. The rows of
  \<open>deployments\<close> the caller may see are those with \<open>user_id = auth.uid()\<close>, which the
  subquery's own condition already demands, so the subquery ranges over the table.
\<close>

definition update_history_policies :: "update_history_entry policy list" where
  "update_history_policies =
     [\<lparr>policy_name = ''Users can view their own deployment history'',
       policy_for = SELECT,
       policy_using = Some (\<lambda>role db r.
          list_ex (\<lambda>d. sql_eq_true (Some (dep_id d)) (uh_deployment_id r)
                      \<and> sql_eq_true (Some (dep_user_id d)) (auth_uid role))
                  (deployments db)),
       policy_with_check = None\<rparr>]"

text \<open>
  Row-level security is enabled on all four tables. The policies are permissive: a row
  passes when some policy for the command admits it, and with no policy for the command
  no row passes. An \<open>UPDATE\<close> policy without \<open>WITH CHECK\<close> checks the new row with its
  \<open>USING\<close> expression. A statement with a \<open>WHERE\<close> clause reads the rows it changes, so
  the \<open>SELECT\<close> policies apply to it as well.
\<close>

definition using_admits :: "'row policy list \<Rightarrow> command \<Rightarrow> role \<Rightarrow> database \<Rightarrow> 'row \<Rightarrow> bool" where
  "using_admits ps cmd role db r =
     list_ex (\<lambda>p. policy_for p = cmd
                \<and> (case policy_using p of None \<Rightarrow> True | Some e \<Rightarrow> e role db r)) ps"

definition check_admits :: "'row policy list \<Rightarrow> command \<Rightarrow> role \<Rightarrow> database \<Rightarrow> 'row \<Rightarrow> bool" where
  "check_admits ps cmd role db r =
     list_ex (\<lambda>p. policy_for p = cmd
                \<and> (case policy_with_check p of
                      Some e \<Rightarrow> e role db r
                    | None \<Rightarrow> (case policy_using p of None \<Rightarrow> True | Some e \<Rightarrow> e role db r))) ps"

definition rls_select :: "'row policy list \<Rightarrow> role \<Rightarrow> database \<Rightarrow> 'row \<Rightarrow> bool" where
  "rls_select ps role db r = (bypassrls role \<or> using_admits ps SELECT role db r)"

definition rls_insert :: "'row policy list \<Rightarrow> role \<Rightarrow> database \<Rightarrow> 'row \<Rightarrow> bool" where
  "rls_insert ps role db r = (bypassrls role \<or> check_admits ps INSERT role db r)"

definition rls_update_old :: "'row policy list \<Rightarrow> role \<Rightarrow> database \<Rightarrow> 'row \<Rightarrow> bool" where
  "rls_update_old ps role db r =
     (bypassrls role \<or> (using_admits ps SELECT role db r \<and> using_admits ps UPDATE role db r))"

definition rls_update_new :: "'row policy list \<Rightarrow> role \<Rightarrow> database \<Rightarrow> 'row \<Rightarrow> bool" where
  "rls_update_new ps role db r =
     (bypassrls role \<or> (using_admits ps SELECT role db r \<and> check_admits ps UPDATE role db r))"

definition rls_delete :: "'row policy list \<Rightarrow> role \<Rightarrow> database \<Rightarrow> 'row \<Rightarrow> bool" where
  "rls_delete ps role db r =
     (bypassrls role \<or> (using_admits ps SELECT role db r \<and> using_admits ps DELETE role db r))"

datatype sql_error = Row_security_violation | Unique_violation | Foreign_key_violation

subsection \<open>SELECT\<close>

definition select_user_profiles :: "role \<Rightarrow> database \<Rightarrow> user_profile list" where
  "select_user_profiles role db = filter (rls_select user_profiles_policies role db) (user_profiles db)"

definition select_subscriptions :: "role \<Rightarrow> database \<Rightarrow> subscription list" where
  "select_subscriptions role db = filter (rls_select subscriptions_policies role db) (subscriptions db)"

definition select_deployments :: "role \<Rightarrow> database \<Rightarrow> deployment list" where
  "select_deployments role db = filter (rls_select deployments_policies role db) (deployments db)"

definition select_update_history :: "role \<Rightarrow> database \<Rightarrow> update_history_entry list" where
  "select_update_history role db = filter (rls_select update_history_policies role db) (update_history db)"

subsection \<open>INSERT\<close>

text \<open>
  An insert is refused by the \<open>WITH CHECK\<close> of the table's policies, by a duplicate of
  the primary key (or of \<open>user_profiles.email\<close>, declared \<open>UNIQUE\<close>), or by a foreign key
  whose value is not \<open>NULL\<close> and names no row of the referenced table.
\<close>

definition insert_user_profile :: "role \<Rightarrow> user_profile \<Rightarrow> database \<Rightarrow> sql_error + database" where
  "insert_user_profile role r db =
     (if \<not> rls_insert user_profiles_policies role db r then Inl Row_security_violation
      else if up_id r \<in> set (map up_id (user_profiles db))
              \<or> up_email r \<in> set (map up_email (user_profiles db)) then Inl Unique_violation
      else if up_id r \<notin> set (auth_users db) then Inl Foreign_key_violation
      else Inr (db\<lparr>user_profiles := user_profiles db @ [r]\<rparr>))"

definition insert_subscription :: "role \<Rightarrow> subscription \<Rightarrow> database \<Rightarrow> sql_error + database" where
  "insert_subscription role r db =
     (if \<not> rls_insert subscriptions_policies role db r then Inl Row_security_violation
      else if sub_id r \<in> set (map sub_id (subscriptions db)) then Inl Unique_violation
      else if sub_user_id r \<notin> set (map up_id (user_profiles db)) then Inl Foreign_key_violation
      else Inr (db\<lparr>subscriptions := subscriptions db @ [r]\<rparr>))"

definition insert_deployment :: "role \<Rightarrow> deployment \<Rightarrow> database \<Rightarrow> sql_error + database" where
  "insert_deployment role r db =
     (if \<not> rls_insert deployments_policies role db r then Inl Row_security_violation
      else if dep_id r \<in> set (map dep_id (deployments db)) then Inl Unique_violation
      else if dep_user_id r \<notin> set (map up_id (user_profiles db)) then Inl Foreign_key_violation
      else if (case dep_subscription_id r of
                 None \<Rightarrow> False
               | Some s \<Rightarrow> s \<notin> set (map sub_id (subscriptions db))) then Inl Foreign_key_violation
      else Inr (db\<lparr>deployments := deployments db @ [r]\<rparr>))"

definition insert_update_history :: "role \<Rightarrow> update_history_entry \<Rightarrow> database \<Rightarrow> sql_error + database" where
  "insert_update_history role r db =
     (if \<not> rls_insert update_history_policies role db r then Inl Row_security_violation
      else if uh_id r \<in> set (map uh_id (update_history db)) then Inl Unique_violation
      else if (case uh_deployment_id r of
                 None \<Rightarrow> False
               | Some d \<Rightarrow> d \<notin> set (map dep_id (deployments db))) then Inl Foreign_key_violation
      else Inr (db\<lparr>update_history := update_history db @ [r]\<rparr>))"

subsection \<open>UPDATE\<close>

text \<open>
  \<open>UPDATE t SET ... WHERE ...\<close>: \<open>wh\<close> is the \<open>WHERE\<close> condition and \<open>st\<close> the \<open>SET\<close>
  clause. The rows changed are those the condition selects and the policies let the
  caller read and update. On \<open>user_profiles\<close>, \<open>subscriptions\<close> and \<open>deployments\<close> the
  trigger running \<open>update_updated_at_column\<close> before each row's update overwrites the
  new row's \<open>updated_at\<close> with \<open>NOW()\<close>; \<open>update_history\<close> has no trigger. The statement
  fails when a new row does not pass the policies, when keys collide, when a changed
  foreign key names no row, or when a key that is still referenced disappears (the
  references are \<open>ON UPDATE NO ACTION\<close>).
\<close>

definition update_user_profiles ::
    "role \<Rightarrow> timestamptz \<Rightarrow> (user_profile \<Rightarrow> bool) \<Rightarrow> (user_profile \<Rightarrow> user_profile)
       \<Rightarrow> database \<Rightarrow> sql_error + database" where
  "update_user_profiles role now wh st db =
     (let target = (\<lambda>r. wh r \<and> rls_update_old user_profiles_policies role db r);
          new = (\<lambda>r. (st r)\<lparr>up_updated_at := Some now\<rparr>);
          rows = map (\<lambda>r. if target r then new r else r) (user_profiles db)
      in if list_ex (\<lambda>r. target r \<and> \<not> rls_update_new user_profiles_policies role db (new r))
              (user_profiles db) then Inl Row_security_violation
         else if \<not> distinct (map up_id rows) \<or> \<not> distinct (map up_email rows)
              then Inl Unique_violation
         else if list_ex (\<lambda>r. target r \<and> up_id (new r) \<noteq> up_id r
                               \<and> up_id (new r) \<notin> set (auth_users db))
              (user_profiles db) then Inl Foreign_key_violation
         else if list_ex (\<lambda>r. up_id r \<notin> set (map up_id rows)
                               \<and> (list_ex (\<lambda>s. sub_user_id s = up_id r) (subscriptions db)
                                  \<or> list_ex (\<lambda>d. dep_user_id d = up_id r) (deployments db)))
              (user_profiles db) then Inl Foreign_key_violation
         else Inr (db\<lparr>user_profiles := rows\<rparr>))"

definition update_subscriptions ::
    "role \<Rightarrow> timestamptz \<Rightarrow> (subscription \<Rightarrow> bool) \<Rightarrow> (subscription \<Rightarrow> subscription)
       \<Rightarrow> database \<Rightarrow> sql_error + database" where
  "update_subscriptions role now wh st db =
     (let target = (\<lambda>r. wh r \<and> rls_update_old subscriptions_policies role db r);
          new = (\<lambda>r. (st r)\<lparr>sub_updated_at := Some now\<rparr>);
          rows = map (\<lambda>r. if target r then new r else r) (subscriptions db)
      in if list_ex (\<lambda>r. target r \<and> \<not> rls_update_new subscriptions_policies role db (new r))
              (subscriptions db) then Inl Row_security_violation
         else if \<not> distinct (map sub_id rows) then Inl Unique_violation
         else if list_ex (\<lambda>r. target r \<and> sub_user_id (new r) \<noteq> sub_user_id r
                               \<and> sub_user_id (new r) \<notin> set (map up_id (user_profiles db)))
              (subscriptions db) then Inl Foreign_key_violation
         else if list_ex (\<lambda>r. sub_id r \<notin> set (map sub_id rows)
                               \<and> list_ex (\<lambda>d. dep_subscription_id d = Some (sub_id r)) (deployments db))
              (subscriptions db) then Inl Foreign_key_violation
         else Inr (db\<lparr>subscriptions := rows\<rparr>))"

definition update_deployments ::
    "role \<Rightarrow> timestamptz \<Rightarrow> (deployment \<Rightarrow> bool) \<Rightarrow> (deployment \<Rightarrow> deployment)
       \<Rightarrow> database \<Rightarrow> sql_error + database" where
  "update_deployments role now wh st db =
     (let target = (\<lambda>r. wh r \<and> rls_update_old deployments_policies role db r);
          new = (\<lambda>r. (st r)\<lparr>dep_updated_at := Some now\<rparr>);
          rows = map (\<lambda>r. if target r then new r else r) (deployments db)
      in if list_ex (\<lambda>r. target r \<and> \<not> rls_update_new deployments_policies role db (new r))
              (deployments db) then Inl Row_security_violation
         else if \<not> distinct (map dep_id rows) then Inl Unique_violation
         else if list_ex (\<lambda>r. target r \<and> dep_user_id (new r) \<noteq> dep_user_id r
                               \<and> dep_user_id (new r) \<notin> set (map up_id (user_profiles db)))
              (deployments db) then Inl Foreign_key_violation
         else if list_ex (\<lambda>r. target r \<and> dep_subscription_id (new r) \<noteq> dep_subscription_id r
                               \<and> (case dep_subscription_id (new r) of
                                     None \<Rightarrow> False
                                   | Some s \<Rightarrow> s \<notin> set (map sub_id (subscriptions db))))
              (deployments db) then Inl Foreign_key_violation
         else if list_ex (\<lambda>r. dep_id r \<notin> set (map dep_id rows)
                               \<and> list_ex (\<lambda>h. uh_deployment_id h = Some (dep_id r)) (update_history db))
              (deployments db) then Inl Foreign_key_violation
         else Inr (db\<lparr>deployments := rows\<rparr>))"

definition update_update_history ::
    "role \<Rightarrow> (update_history_entry \<Rightarrow> bool) \<Rightarrow> (update_history_entry \<Rightarrow> update_history_entry)
       \<Rightarrow> database \<Rightarrow> sql_error + database" where
  "update_update_history role wh st db =
     (let target = (\<lambda>r. wh r \<and> rls_update_old update_history_policies role db r);
          rows = map (\<lambda>r. if target r then st r else r) (update_history db)
      in if list_ex (\<lambda>r. target r \<and> \<not> rls_update_new update_history_policies role db (st r))
              (update_history db) then Inl Row_security_violation
         else if \<not> distinct (map uh_id rows) then Inl Unique_violation
         else if list_ex (\<lambda>r. target r \<and> uh_deployment_id (st r) \<noteq> uh_deployment_id r
                               \<and> (case uh_deployment_id (st r) of
                                     None \<Rightarrow> False
                                   | Some d \<Rightarrow> d \<notin> set (map dep_id (deployments db))))
              (update_history db) then Inl Foreign_key_violation
         else Inr (db\<lparr>update_history := rows\<rparr>))"

subsection \<open>DELETE and the referential actions\<close>

text \<open>
  Removing rows runs the \<open>ON DELETE\<close> action of every foreign key that references them,
  whoever issued the statement: \<open>update_history.deployment_id\<close>, \<open>subscriptions.user_id\<close>
  and \<open>deployments.user_id\<close> are \<open>ON DELETE CASCADE\<close>, \<open>deployments.subscription_id\<close> is
  \<open>ON DELETE SET NULL\<close>. Setting the column to \<open>NULL\<close> is an update of the deployment,
  so the trigger stamps its \<open>updated_at\<close>.
\<close>

definition remove_deployments :: "(deployment \<Rightarrow> bool) \<Rightarrow> database \<Rightarrow> database" where
  "remove_deployments gone db =
     (let ids = map dep_id (filter gone (deployments db))
      in db\<lparr>deployments := filter (\<lambda>d. \<not> gone d) (deployments db),
            update_history :=
              filter (\<lambda>h. case uh_deployment_id h of None \<Rightarrow> True | Some d \<Rightarrow> d \<notin> set ids)
                (update_history db)\<rparr>)"

definition remove_subscriptions :: "timestamptz \<Rightarrow> (subscription \<Rightarrow> bool) \<Rightarrow> database \<Rightarrow> database" where
  "remove_subscriptions now gone db =
     (let ids = map sub_id (filter gone (subscriptions db))
      in db\<lparr>subscriptions := filter (\<lambda>s. \<not> gone s) (subscriptions db),
            deployments :=
              map (\<lambda>d. case dep_subscription_id d of
                          None \<Rightarrow> d
                        | Some s \<Rightarrow> if s \<in> set ids
                                    then d\<lparr>dep_subscription_id := None, dep_updated_at := Some now\<rparr>
                                    else d)
                (deployments db)\<rparr>)"

definition remove_user_profiles :: "timestamptz \<Rightarrow> (user_profile \<Rightarrow> bool) \<Rightarrow> database \<Rightarrow> database" where
  "remove_user_profiles now gone db =
     (let ids = map up_id (filter gone (user_profiles db));
          db1 = db\<lparr>user_profiles := filter (\<lambda>r. \<not> gone r) (user_profiles db)\<rparr>;
          db2 = remove_subscriptions now (\<lambda>s. sub_user_id s \<in> set ids) db1
      in remove_deployments (\<lambda>d. dep_user_id d \<in> set ids) db2)"

text \<open>
  \<open>DELETE FROM t WHERE ...\<close> removes the rows the condition selects and the policies let
  the caller read and delete. No foreign key of the schema restricts a delete, so the
  statement itself cannot fail.
\<close>

definition delete_user_profiles ::
    "role \<Rightarrow> timestamptz \<Rightarrow> (user_profile \<Rightarrow> bool) \<Rightarrow> database \<Rightarrow> sql_error + database" where
  "delete_user_profiles role now wh db =
     Inr (remove_user_profiles now (\<lambda>r. wh r \<and> rls_delete user_profiles_policies role db r) db)"

definition delete_subscriptions ::
    "role \<Rightarrow> timestamptz \<Rightarrow> (subscription \<Rightarrow> bool) \<Rightarrow> database \<Rightarrow> sql_error + database" where
  "delete_subscriptions role now wh db =
     Inr (remove_subscriptions now (\<lambda>r. wh r \<and> rls_delete subscriptions_policies role db r) db)"

definition delete_deployments ::
    "role \<Rightarrow> (deployment \<Rightarrow> bool) \<Rightarrow> database \<Rightarrow> sql_error + database" where
  "delete_deployments role wh db =
     Inr (remove_deployments (\<lambda>r. wh r \<and> rls_delete deployments_policies role db r) db)"

definition delete_update_history ::
    "role \<Rightarrow> (update_history_entry \<Rightarrow> bool) \<Rightarrow> database \<Rightarrow> sql_error + database" where
  "delete_update_history role wh db =
     Inr (db\<lparr>update_history :=
               filter (\<lambda>r. \<not> (wh r \<and> rls_delete update_history_policies role db r))
                 (update_history db)\<rparr>)"

subsection \<open>Statements\<close>

text \<open>Every data-changing statement a client can send against the four tables.\<close>

datatype statement =
    Insert_user_profile user_profile
  | Insert_subscription subscription
  | Insert_deployment deployment
  | Insert_update_history update_history_entry
  | Update_user_profiles "user_profile \<Rightarrow> bool" "user_profile \<Rightarrow> user_profile"
  | Update_subscriptions "subscription \<Rightarrow> bool" "subscription \<Rightarrow> subscription"
  | Update_deployments "deployment \<Rightarrow> bool" "deployment \<Rightarrow> deployment"
  | Update_update_history "update_history_entry \<Rightarrow> bool" "update_history_entry \<Rightarrow> update_history_entry"
  | Delete_user_profiles "user_profile \<Rightarrow> bool"
  | Delete_subscriptions "subscription \<Rightarrow> bool"
  | Delete_deployments "deployment \<Rightarrow> bool"
  | Delete_update_history "update_history_entry \<Rightarrow> bool"

fun execute :: "role \<Rightarrow> timestamptz \<Rightarrow> statement \<Rightarrow> database \<Rightarrow> sql_error + database" where
  "execute role now (Insert_user_profile r) db = insert_user_profile role r db"
| "execute role now (Insert_subscription r) db = insert_subscription role r db"
| "execute role now (Insert_deployment r) db = insert_deployment role r db"
| "execute role now (Insert_update_history r) db = insert_update_history role r db"
| "execute role now (Update_user_profiles wh st) db = update_user_profiles role now wh st db"
| "execute role now (Update_subscriptions wh st) db = update_subscriptions role now wh st db"
| "execute role now (Update_deployments wh st) db = update_deployments role now wh st db"
| "execute role now (Update_update_history wh st) db = update_update_history role wh st db"
| "execute role now (Delete_user_profiles wh) db = delete_user_profiles role now wh db"
| "execute role now (Delete_subscriptions wh) db = delete_subscriptions role now wh db"
| "execute role now (Delete_deployments wh) db = delete_deployments role wh db"
| "execute role now (Delete_update_history wh) db = delete_update_history role wh db"

subsection \<open>A small store\<close>

text \<open>
  Two users, each with one subscription and one deployment; the first user's
  subscription is canceled and her deployment has failed. One history entry.
\<close>

definition alice :: user_profile where
  "alice = \<lparr>up_id = 1, up_email = ''alice@example.com'', up_full_name = Some ''Alice'',
            up_created_at = Some 100, up_updated_at = Some 100\<rparr>"

definition bob :: user_profile where
  "bob = \<lparr>up_id = 2, up_email = ''bob@example.com'', up_full_name = None,
          up_created_at = Some 110, up_updated_at = Some 110\<rparr>"

definition alice_subscription :: subscription where
  "alice_subscription =
     \<lparr>sub_id = 10, sub_user_id = 1, sub_user_email = ''alice@example.com'',
      sub_stripe_subscription_id = ''sub_A'', sub_plan_type = ''notary-assistant-basic'',
      sub_status = ''canceled'', sub_created_at = Some 120, sub_updated_at = Some 125\<rparr>"

definition bob_subscription :: subscription where
  "bob_subscription =
     \<lparr>sub_id = 11, sub_user_id = 2, sub_user_email = ''bob@example.com'',
      sub_stripe_subscription_id = ''sub_B'', sub_plan_type = ''notary-assistant-pro'',
      sub_status = ''active'', sub_created_at = Some 130, sub_updated_at = Some 130\<rparr>"

definition alice_deployment :: deployment where
  "alice_deployment =
     \<lparr>dep_id = 20, dep_user_id = 1, dep_user_email = ''alice@example.com'',
      dep_template_id = ''notary-assistant-basic'', dep_droplet_id = Some ''4711'',
      dep_url = Some ''https://a.example'', dep_status = Some ''failed'',
      dep_created_at = Some 140, dep_updated_at = Some 145,
      dep_subscription_id = Some 10, dep_auto_update_enabled = Some False,
      dep_update_schedule = None\<rparr>"

definition bob_deployment :: deployment where
  "bob_deployment =
     \<lparr>dep_id = 21, dep_user_id = 2, dep_user_email = ''bob@example.com'',
      dep_template_id = ''notary-assistant-pro'', dep_droplet_id = Some ''4712'',
      dep_url = Some ''https://b.example'', dep_status = Some ''running'',
      dep_created_at = Some 150, dep_updated_at = Some 155,
      dep_subscription_id = Some 11, dep_auto_update_enabled = Some False,
      dep_update_schedule = None\<rparr>"

definition example_db :: database where
  "example_db =
     \<lparr>auth_users = [1, 2],
      user_profiles = [alice, bob],
      subscriptions = [alice_subscription, bob_subscription],
      deployments = [alice_deployment, bob_deployment],
      update_history =
        [\<lparr>uh_id = 1, uh_deployment_id = Some 20, uh_updated_at = Some 146,
          uh_details = Some ''{}''\<rparr>]\<rparr>"

text \<open>Rows to be added to it: a second deployment for the first user, on her canceled
  subscription, and a history entry without a parent.\<close>

definition second_deployment :: deployment where
  "second_deployment =
     \<lparr>dep_id = 22, dep_user_id = 1, dep_user_email = ''alice@example.com'',
      dep_template_id = ''notary-assistant-basic'', dep_droplet_id = Some ''4713'',
      dep_url = Some ''https://c.example'', dep_status = Some ''deploying'',
      dep_created_at = Some 160, dep_updated_at = Some 160,
      dep_subscription_id = Some 10, dep_auto_update_enabled = Some False,
      dep_update_schedule = None\<rparr>"

definition parentless_entry :: update_history_entry where
  "parentless_entry =
     \<lparr>uh_id = 2, uh_deployment_id = None, uh_updated_at = Some 170, uh_details = Some ''{}''\<rparr>"

section \<open>The deployments page (frontend/app/deployments/page.tsx)\<close>

text \<open>
  The page component takes no properties, calls no hook and sends no request: it maps
  the module constant \<open>dummyDeployments\<close> to one card per element. A card is modelled by
  the texts and attributes that depend on the element.
\<close>

record dummy_deployment =
  dd_id :: string
  dd_name :: string
  dd_template :: string
  dd_status :: string
  dd_url :: string
  dd_created :: string
  dd_plan :: string

definition dummyDeployments :: "dummy_deployment list" where
  "dummyDeployments =
     [\<lparr>dd_id = ''1'',
       dd_name = ''Notary AI Assistant'',
       dd_template = ''Document Analysis'',
       dd_status = ''running'',
       dd_url = ''https://notary-ai-1.yourdomain.com'',
       dd_created = ''2024-01-15'',
       dd_plan = ''Pro''\<rparr>,
      \<lparr>dd_id = ''2'',
       dd_name = ''Smart Document Processor'',
       dd_template = ''PDF Analysis'',
       dd_status = ''deploying'',
       dd_url = ''https://doc-processor-2.yourdomain.com'',
       dd_created = ''2024-01-18'',
       dd_plan = ''Basic''\<rparr>,
      \<lparr>dd_id = ''3'',
       dd_name = ''ID Verification System'',
       dd_template = ''Identity Check'',
       dd_status = ''stopped'',
       dd_url = ''https://id-verify-3.yourdomain.com'',
       dd_created = ''2024-01-20'',
       dd_plan = ''Enterprise''\<rparr>]"

record card =
  card_key :: string
  card_heading :: string
  card_template :: string
  card_created :: string
  card_badge_class :: string
  card_badge :: string
  card_plan :: string
  card_href :: string
  card_link :: string

definition render_card :: "dummy_deployment \<Rightarrow> card" where
  "render_card deployment =
     \<lparr>card_key = dd_id deployment,
      card_heading = dd_name deployment,
      card_template = dd_template deployment,
      card_created = ''Created: '' @ dd_created deployment,
      card_badge_class = ''px-3 py-1 rounded-full text-sm '' @
        (if dd_status deployment = ''running'' then ''bg-green-100 text-green-800''
         else if dd_status deployment = ''deploying'' then ''bg-yellow-100 text-yellow-800''
         else ''bg-red-100 text-red-800''),
      card_badge = dd_status deployment,
      card_plan = dd_plan deployment,
      card_href = dd_url deployment,
      card_link = dd_url deployment\<rparr>"

definition Deployments :: "card list" where
  "Deployments = map render_card dummyDeployments"

text \<open>
  The creation dates are written as year, month and day, each zero-padded; read as one
  number, a later date is a larger number.
\<close>

definition iso_date :: "string \<Rightarrow> nat" where
  "iso_date s = foldl (\<lambda>n c. 10 * n + (of_char c - 48)) 0 (filter (\<lambda>c. c \<noteq> CHR ''-'') s)"

section \<open>The deployment orchestrator\<close>

datatype deploy_error = ProvisioningFailed

record provisioned =
  resource_reference :: string
  resource_url :: string

record deploy_result =
  deploymentId :: uuid
  url :: string

text \<open>
  Modelled from the spec: \<open>deploy\<close> of section 4.3; the backend that implements it
  (\<open>main.py\<close>, started by backend/render.yaml) is not among the sources. The operation
  forwards a provisioning request for the template to the infrastructure provider. When
  the provider confirms, it persists a deployment row with status \<open>deploying\<close> and the
  resource reference and URL the provider returned, and returns the row's identifier
  and URL. When the provider fails, it fails with \<open>ProvisioningFailed\<close> and creates no
  row. The provider's answer, the new row's key and the time are parameters.
\<close>

definition deploy ::
    "(string \<Rightarrow> provisioned option) \<Rightarrow> uuid \<Rightarrow> timestamptz
       \<Rightarrow> uuid \<Rightarrow> string \<Rightarrow> string \<Rightarrow> database \<Rightarrow> (deploy_error + deploy_result) \<times> database" where
  "deploy provider new_id now caller caller_email template db =
     (case provider template of
        None \<Rightarrow> (Inl ProvisioningFailed, db)
      | Some p \<Rightarrow>
          (Inr \<lparr>deploymentId = new_id, url = resource_url p\<rparr>,
           db\<lparr>deployments := deployments db @
                [\<lparr>dep_id = new_id, dep_user_id = caller, dep_user_email = caller_email,
                  dep_template_id = template,
                  dep_droplet_id = Some (resource_reference p),
                  dep_url = Some (resource_url p),
                  dep_status = Some ''deploying'',
                  dep_created_at = Some now, dep_updated_at = Some now,
                  dep_subscription_id = None,
                  dep_auto_update_enabled = Some False,
                  dep_update_schedule = None\<rparr>]\<rparr>))"

section \<open>Properties of the middleware\<close>

lemma startsWith_prefix: "startsWith s route = prefix route s"
  unfolding startsWith_def prefix_def
  by (metis append_eq_conv_conj append_take_drop_id)

lemma isPublicRoute_iff:
  "list_ex (\<lambda>route. startsWith p route) publicRoutes
     = (prefix ''/login'' p \<or> prefix ''/signup'' p \<or> prefix ''/auth/callback'' p)"
  by (simp add: publicRoutes_def startsWith_prefix)

text \<open>
  Claim C9. A request without a session whose path neither starts with \<open>/login\<close>,
  \<open>/signup\<close> or \<open>/auth/callback\<close> nor is exactly \<open>/\<close> is answered by a redirect to
  \<open>/login\<close> on the request's own origin; every other request (a session is present, the
  route is public, or the path is the root) is passed through with the untouched
  \<open>NextResponse.next()\<close>.
\<close>

theorem middleware_redirects_unauthenticated:
  "(session = None \<and> \<not> prefix ''/login'' (pathname req) \<and> \<not> prefix ''/signup'' (pathname req)
      \<and> \<not> prefix ''/auth/callback'' (pathname req) \<and> pathname req \<noteq> ''/''
      \<longrightarrow> middleware req session
           = Redirect_response \<lparr>url_origin = origin req, url_pathname = ''/login'', url_search = []\<rparr>)
   \<and> (\<not> (session = None \<and> \<not> prefix ''/login'' (pathname req) \<and> \<not> prefix ''/signup'' (pathname req)
      \<and> \<not> prefix ''/auth/callback'' (pathname req) \<and> pathname req \<noteq> ''/'')
      \<longrightarrow> middleware req session = Next_response)"
  unfolding middleware_def Let_def isPublicRoute_iff new_URL_def by simp

theorem middleware_redirects_unauthenticated_witness:
  "middleware \<lparr>origin = ''https://app.example'', pathname = ''/deployments'', search = ''?x=1''\<rparr>
       (None :: unit option)
     = Redirect_response \<lparr>url_origin = ''https://app.example'', url_pathname = ''/login'', url_search = []\<rparr>
   \<and> middleware \<lparr>origin = ''https://app.example'', pathname = ''/login/reset'', search = []\<rparr>
       (None :: unit option) = Next_response
   \<and> middleware \<lparr>origin = ''https://app.example'', pathname = ''/'', search = []\<rparr>
       (None :: unit option) = Next_response
   \<and> middleware \<lparr>origin = ''https://app.example'', pathname = ''/deployments'', search = []\<rparr>
       (Some ()) = Next_response"
  using middleware_redirects_unauthenticated
          [of "None :: unit option"
              "\<lparr>origin = ''https://app.example'', pathname = ''/deployments'', search = ''?x=1''\<rparr>"]
        middleware_redirects_unauthenticated
          [of "None :: unit option"
              "\<lparr>origin = ''https://app.example'', pathname = ''/login/reset'', search = []\<rparr>"]
        middleware_redirects_unauthenticated
          [of "None :: unit option"
              "\<lparr>origin = ''https://app.example'', pathname = ''/'', search = []\<rparr>"]
        middleware_redirects_unauthenticated
          [of "Some ()"
              "\<lparr>origin = ''https://app.example'', pathname = ''/deployments'', search = []\<rparr>"]
  by simp

section \<open>Properties of handleDeploy\<close>

lemma fetch_calls_append: "fetch_calls (xs @ ys) = fetch_calls xs @ fetch_calls ys"
  by (induction xs rule: fetch_calls.induct) auto



text \<open>
  A deploy request in a run means that the session was obtained and that the
  subscription request, sent with that session, came back with an ok response.
\<close>

lemma handleDeploy_deploy_sent:
  assumes "c \<in> set (fetch_calls (handleDeploy API_URL b templateId tier))"
    and "fc_url c = template_literal API_URL @ ''/deploy''"
  shows "\<exists>session r. getSession b = Inr session
           \<and> fetch b (post_json (template_literal API_URL @ ''/create-subscription'') session
                        [(''plan_type'', templateId @ ''-'' @ default_tier tier),
                         (''payment_method_id'', ''pm_card_visa'')]) = Inr r
           \<and> ok r"
  using assms
  by (auto simp: handleDeploy_def Let_def post_json_def catch_block_def fetch_calls_append
      split: sum.splits json_value.splits if_splits)

lemma handleDeploy_page_deploy_sent:
  assumes "c \<in> set (fetch_calls (handleDeploy_page b templateId tier))"
    and "fc_url c = ''http://localhost:8000/deploy''"
  shows "\<exists>session r. getSession b = Inr session
           \<and> fetch b (post_json ''http://localhost:8000/create-subscription'' session
                        [(''plan_type'', templateId @ ''-'' @ default_tier tier),
                         (''payment_method_id'', ''pm_card_visa'')]) = Inr r
           \<and> ok r"
  using assms
  by (auto simp: handleDeploy_page_def Let_def post_json_def catch_block_def fetch_calls_append
      split: sum.splits json_value.splits if_splits)

text \<open>The run when the subscription response is not ok: one request, then the alert.\<close>

lemma handleDeploy_subscription_refused:
  assumes "user b \<noteq> None" and "getSession b = Inr session"
    and "fetch b (post_json (template_literal API_URL @ ''/create-subscription'') session
                    [(''plan_type'', templateId @ ''-'' @ default_tier tier),
                     (''payment_method_id'', ''pm_card_visa'')]) = Inr r"
    and "\<not> ok r"
  shows "handleDeploy API_URL b templateId tier =
      [SetDeploying (Some templateId),
       Await_getSession,
       Console_log ''Sending subscription request:''
         (template_literal API_URL @ ''/create-subscription'')
         [(''plan_type'', templateId @ ''-'' @ default_tier tier),
          (''payment_method_id'', ''pm_card_visa'')],
       Await_fetch (post_json (template_literal API_URL @ ''/create-subscription'') session
                    [(''plan_type'', templateId @ ''-'' @ default_tier tier),
                     (''payment_method_id'', ''pm_card_visa'')]),
       Alert ''Error: Failed to create subscription'',
       SetDeploying None]"
  using assms by (simp add: handleDeploy_def Let_def catch_block_def)

lemma handleDeploy_page_subscription_refused:
  assumes "user b \<noteq> None" and "getSession b = Inr session"
    and "fetch b (post_json ''http://localhost:8000/create-subscription'' session
                    [(''plan_type'', templateId @ ''-'' @ default_tier tier),
                     (''payment_method_id'', ''pm_card_visa'')]) = Inr r"
    and "\<not> ok r"
  shows "handleDeploy_page b templateId tier =
      [SetDeploying (Some templateId),
       Await_getSession,
       Await_fetch (post_json ''http://localhost:8000/create-subscription'' session
                    [(''plan_type'', templateId @ ''-'' @ default_tier tier),
                     (''payment_method_id'', ''pm_card_visa'')]),
       Alert ''Error: Failed to create subscription'',
       SetDeploying None]"
  using assms by (simp add: handleDeploy_page_def Let_def catch_block_def)

text \<open>
  Claim C3. In both copies of \<open>handleDeploy\<close>, run with a signed-in user: a request to
  \<open>/deploy\<close> is among the requests sent only if the session was obtained and the request
  to \<open>/create-subscription\<close> resolved to an ok response; and when that response is not
  ok, the run consists of the subscription request alone, followed by the alert
  \<open>Error: Failed to create subscription\<close> and the reset of the \<open>deploying\<close> state, so
  no deploy request is sent.
\<close>

theorem handleDeploy_deploy_only_after_subscription_ok:
  assumes "user b \<noteq> None"
  shows
    "(\<forall>c \<in> set (fetch_calls (handleDeploy API_URL b templateId tier)).
        fc_url c = template_literal API_URL @ ''/deploy'' \<longrightarrow>
        (\<exists>session r. getSession b = Inr session
           \<and> fetch b (post_json (template_literal API_URL @ ''/create-subscription'') session
                        [(''plan_type'', templateId @ ''-'' @ default_tier tier),
                         (''payment_method_id'', ''pm_card_visa'')]) = Inr r
           \<and> ok r))
     \<and> (\<forall>session r.
          getSession b = Inr session
          \<and> fetch b (post_json (template_literal API_URL @ ''/create-subscription'') session
                       [(''plan_type'', templateId @ ''-'' @ default_tier tier),
                        (''payment_method_id'', ''pm_card_visa'')]) = Inr r
          \<and> \<not> ok r \<longrightarrow>
          handleDeploy API_URL b templateId tier =
            [SetDeploying (Some templateId),
             Await_getSession,
             Console_log ''Sending subscription request:''
               (template_literal API_URL @ ''/create-subscription'')
               [(''plan_type'', templateId @ ''-'' @ default_tier tier),
                (''payment_method_id'', ''pm_card_visa'')],
             Await_fetch (post_json (template_literal API_URL @ ''/create-subscription'') session
                          [(''plan_type'', templateId @ ''-'' @ default_tier tier),
                           (''payment_method_id'', ''pm_card_visa'')]),
             Alert ''Error: Failed to create subscription'',
             SetDeploying None])
     \<and> (\<forall>c \<in> set (fetch_calls (handleDeploy_page b templateId tier)).
        fc_url c = ''http://localhost:8000/deploy'' \<longrightarrow>
        (\<exists>session r. getSession b = Inr session
           \<and> fetch b (post_json ''http://localhost:8000/create-subscription'' session
                        [(''plan_type'', templateId @ ''-'' @ default_tier tier),
                         (''payment_method_id'', ''pm_card_visa'')]) = Inr r
           \<and> ok r))
     \<and> (\<forall>session r.
          getSession b = Inr session
          \<and> fetch b (post_json ''http://localhost:8000/create-subscription'' session
                       [(''plan_type'', templateId @ ''-'' @ default_tier tier),
                        (''payment_method_id'', ''pm_card_visa'')]) = Inr r
          \<and> \<not> ok r \<longrightarrow>
          handleDeploy_page b templateId tier =
            [SetDeploying (Some templateId),
             Await_getSession,
             Await_fetch (post_json ''http://localhost:8000/create-subscription'' session
                          [(''plan_type'', templateId @ ''-'' @ default_tier tier),
                           (''payment_method_id'', ''pm_card_visa'')]),
             Alert ''Error: Failed to create subscription'',
             SetDeploying None])"
proof (intro conjI ballI allI impI)
  fix c
  assume "c \<in> set (fetch_calls (handleDeploy API_URL b templateId tier))"
    and "fc_url c = template_literal API_URL @ ''/deploy''"
  then show "\<exists>session r. getSession b = Inr session
           \<and> fetch b (post_json (template_literal API_URL @ ''/create-subscription'') session
                        [(''plan_type'', templateId @ ''-'' @ default_tier tier),
                         (''payment_method_id'', ''pm_card_visa'')]) = Inr r
           \<and> ok r"
    by (rule handleDeploy_deploy_sent)
next
  fix c
  assume "c \<in> set (fetch_calls (handleDeploy_page b templateId tier))"
    and "fc_url c = ''http://localhost:8000/deploy''"
  then show "\<exists>session r. getSession b = Inr session
           \<and> fetch b (post_json ''http://localhost:8000/create-subscription'' session
                        [(''plan_type'', templateId @ ''-'' @ default_tier tier),
                         (''payment_method_id'', ''pm_card_visa'')]) = Inr r
           \<and> ok r"
    by (rule handleDeploy_page_deploy_sent)
next
  fix session r
  assume "getSession b = Inr session
          \<and> fetch b (post_json (template_literal API_URL @ ''/create-subscription'') session
                       [(''plan_type'', templateId @ ''-'' @ default_tier tier),
                        (''payment_method_id'', ''pm_card_visa'')]) = Inr r
          \<and> \<not> ok r"
  with assms show "handleDeploy API_URL b templateId tier =
            [SetDeploying (Some templateId),
             Await_getSession,
             Console_log ''Sending subscription request:''
               (template_literal API_URL @ ''/create-subscription'')
               [(''plan_type'', templateId @ ''-'' @ default_tier tier),
                (''payment_method_id'', ''pm_card_visa'')],
             Await_fetch (post_json (template_literal API_URL @ ''/create-subscription'') session
                          [(''plan_type'', templateId @ ''-'' @ default_tier tier),
                           (''payment_method_id'', ''pm_card_visa'')]),
             Alert ''Error: Failed to create subscription'',
             SetDeploying None]"
    by (intro handleDeploy_subscription_refused) blast+
next
  fix session r
  assume "getSession b = Inr session
          \<and> fetch b (post_json ''http://localhost:8000/create-subscription'' session
                       [(''plan_type'', templateId @ ''-'' @ default_tier tier),
                        (''payment_method_id'', ''pm_card_visa'')]) = Inr r
          \<and> \<not> ok r"
  with assms show "handleDeploy_page b templateId tier =
            [SetDeploying (Some templateId),
             Await_getSession,
             Await_fetch (post_json ''http://localhost:8000/create-subscription'' session
                          [(''plan_type'', templateId @ ''-'' @ default_tier tier),
                           (''payment_method_id'', ''pm_card_visa'')]),
             Alert ''Error: Failed to create subscription'',
             SetDeploying None]"
    by (intro handleDeploy_page_subscription_refused) blast+
qed

theorem handleDeploy_deploy_only_after_subscription_ok_witness:
  "user refusing_browser \<noteq> None
   \<and> handleDeploy (Some ''https://api.example'') refusing_browser ''notary-assistant'' (Some ''pro'') =
       [SetDeploying (Some ''notary-assistant''),
        Await_getSession,
        Console_log ''Sending subscription request:'' ''https://api.example/create-subscription''
          [(''plan_type'', ''notary-assistant-pro''), (''payment_method_id'', ''pm_card_visa'')],
        Await_fetch
          \<lparr>fc_url = ''https://api.example/create-subscription'', fc_method = ''POST'',
           fc_headers = [(''Content-Type'', ''application/json''), (''Authorization'', ''Bearer tok'')],
           fc_body = [(''plan_type'', ''notary-assistant-pro''),
                      (''payment_method_id'', ''pm_card_visa'')]\<rparr>,
        Alert ''Error: Failed to create subscription'',
        SetDeploying None]
   \<and> handleDeploy_page refusing_browser ''notary-assistant'' None =
       [SetDeploying (Some ''notary-assistant''),
        Await_getSession,
        Await_fetch
          \<lparr>fc_url = ''http://localhost:8000/create-subscription'', fc_method = ''POST'',
           fc_headers = [(''Content-Type'', ''application/json''), (''Authorization'', ''Bearer tok'')],
           fc_body = [(''plan_type'', ''notary-assistant-basic''),
                      (''payment_method_id'', ''pm_card_visa'')]\<rparr>,
        Alert ''Error: Failed to create subscription'',
        SetDeploying None]
   \<and> map fc_url (fetch_calls (handleDeploy (Some ''https://api.example'') example_browser
                                 ''notary-assistant'' (Some ''pro'')))
       = [''https://api.example/create-subscription'', ''https://api.example/deploy'']
   \<and> map fc_url (fetch_calls (handleDeploy_page example_browser ''notary-assistant'' None))
       = [''http://localhost:8000/create-subscription'', ''http://localhost:8000/deploy'']"
  using handleDeploy_deploy_only_after_subscription_ok
          [of refusing_browser "Some ''https://api.example''" "''notary-assistant''" "Some ''pro''"]
        handleDeploy_deploy_only_after_subscription_ok
          [of refusing_browser "Some ''https://api.example''" "''notary-assistant''" None]
        handleDeploy_deploy_only_after_subscription_ok
          [of example_browser "Some ''https://api.example''" "''notary-assistant''" "Some ''pro''"]
  by (simp add: refusing_browser_def example_browser_def handleDeploy_def handleDeploy_page_def
        post_json_def template_literal_def default_tier_def catch_block_def Let_def)







section \<open>Properties of the schema\<close>

subsection \<open>What the policies admit\<close>

lemmas policy_defs = using_admits_def check_admits_def sql_eq_true_def
  user_profiles_policies_def subscriptions_policies_def deployments_policies_def update_history_policies_def

lemma subscriptions_rls:
  assumes "\<not> bypassrls role"
  shows "rls_select subscriptions_policies role db r = (auth_uid role = Some (sub_user_id r))"
    and "rls_insert subscriptions_policies role db r = (auth_uid role = Some (sub_user_id r))"
    and "rls_update_old subscriptions_policies role db r = False"
    and "rls_update_new subscriptions_policies role db r = False"
    and "rls_delete subscriptions_policies role db r = False"
  using assms
  by (auto simp: rls_select_def rls_insert_def rls_update_old_def rls_update_new_def rls_delete_def policy_defs)

lemma deployments_rls:
  assumes "\<not> bypassrls role"
  shows "rls_select deployments_policies role db r = (auth_uid role = Some (dep_user_id r))"
    and "rls_insert deployments_policies role db r = (auth_uid role = Some (dep_user_id r))"
    and "rls_update_old deployments_policies role db r = (auth_uid role = Some (dep_user_id r))"
    and "rls_update_new deployments_policies role db r = (auth_uid role = Some (dep_user_id r))"
    and "rls_delete deployments_policies role db r = False"
  using assms
  by (auto simp: rls_select_def rls_insert_def rls_update_old_def rls_update_new_def rls_delete_def policy_defs)

lemma user_profiles_rls:
  assumes "\<not> bypassrls role"
  shows "rls_select user_profiles_policies role db r = (auth_uid role = Some (up_id r))"
    and "rls_insert user_profiles_policies role db r = False"
    and "rls_update_old user_profiles_policies role db r = (auth_uid role = Some (up_id r))"
    and "rls_update_new user_profiles_policies role db r = (auth_uid role = Some (up_id r))"
    and "rls_delete user_profiles_policies role db r = False"
  using assms
  by (auto simp: rls_select_def rls_insert_def rls_update_old_def rls_update_new_def rls_delete_def policy_defs)

lemma update_history_rls:
  assumes "\<not> bypassrls role"
  shows "rls_insert update_history_policies role db r = False"
    and "rls_update_old update_history_policies role db r = False"
    and "rls_update_new update_history_policies role db r = False"
    and "rls_delete update_history_policies role db r = False"
  using assms
  by (auto simp: rls_select_def rls_insert_def rls_update_old_def rls_update_new_def rls_delete_def policy_defs)

lemma filter_map_unchanged:
  assumes "\<And>x. x \<in> set xs \<Longrightarrow> P x \<Longrightarrow> f x = x"
    and "\<And>x. x \<in> set xs \<Longrightarrow> \<not> P x \<Longrightarrow> \<not> P (f x)"
  shows "filter P (map f xs) = filter P xs"
  using assms by (induction xs) auto

lemma remove_nothing_subscriptions:
  "remove_subscriptions now (\<lambda>r. False) db = db"
  by (simp add: remove_subscriptions_def Let_def option.case_eq_if cong: if_cong)

lemma remove_nothing_deployments:
  "remove_deployments (\<lambda>r. False) db = db"
  by (simp add: remove_deployments_def Let_def option.case_eq_if)

lemma remove_nothing_user_profiles:
  "remove_user_profiles now (\<lambda>r. False) db = db"
  by (simp add: remove_user_profiles_def Let_def remove_nothing_subscriptions remove_nothing_deployments)

lemma execute_others_subscriptions:
  assumes "\<not> bypassrls role" and "execute role now stmt db = Inr db'"
  shows "filter (\<lambda>r. auth_uid role \<noteq> Some (sub_user_id r)) (subscriptions db')
       = filter (\<lambda>r. auth_uid role \<noteq> Some (sub_user_id r)) (subscriptions db)"
proof (cases stmt)
  case (Insert_subscription r)
  with assms show ?thesis
    by (auto simp: insert_subscription_def subscriptions_rls split: if_splits)
next
  case (Update_subscriptions wh st)
  with assms show ?thesis
    by (auto simp: update_subscriptions_def subscriptions_rls Let_def split: if_splits)
next
  case (Delete_subscriptions wh)
  with assms show ?thesis
    by (auto simp: delete_subscriptions_def subscriptions_rls remove_nothing_subscriptions)
next
  case (Delete_user_profiles wh)
  with assms show ?thesis
    by (auto simp: delete_user_profiles_def user_profiles_rls remove_nothing_user_profiles)
next
  case (Delete_deployments wh)
  with assms show ?thesis
    by (auto simp: delete_deployments_def deployments_rls remove_nothing_deployments)
next
  case (Insert_user_profile r)
  with assms show ?thesis
    by (auto simp: insert_user_profile_def user_profiles_rls split: if_splits)
next
  case (Insert_deployment r)
  with assms show ?thesis
    by (auto simp: insert_deployment_def split: if_splits)
next
  case (Insert_update_history r)
  with assms show ?thesis
    by (auto simp: insert_update_history_def split: if_splits)
next
  case (Update_user_profiles wh st)
  with assms show ?thesis
    by (auto simp: update_user_profiles_def Let_def split: if_splits)
next
  case (Update_deployments wh st)
  with assms show ?thesis
    by (auto simp: update_deployments_def Let_def split: if_splits)
next
  case (Update_update_history wh st)
  with assms show ?thesis
    by (auto simp: update_update_history_def Let_def split: if_splits)
next
  case (Delete_update_history wh)
  with assms show ?thesis
    by (auto simp: delete_update_history_def)
qed

lemma execute_others_deployments:
  assumes "\<not> bypassrls role" and "execute role now stmt db = Inr db'"
  shows "filter (\<lambda>r. auth_uid role \<noteq> Some (dep_user_id r)) (deployments db')
       = filter (\<lambda>r. auth_uid role \<noteq> Some (dep_user_id r)) (deployments db)"
proof (cases stmt)
  case (Insert_subscription r)
  with assms show ?thesis
    by (auto simp: insert_subscription_def split: if_splits)
next
  case (Update_subscriptions wh st)
  with assms show ?thesis
    by (auto simp: update_subscriptions_def Let_def split: if_splits)
next
  case (Delete_subscriptions wh)
  with assms show ?thesis
    by (auto simp: delete_subscriptions_def subscriptions_rls remove_nothing_subscriptions)
next
  case (Delete_user_profiles wh)
  with assms show ?thesis
    by (auto simp: delete_user_profiles_def user_profiles_rls remove_nothing_user_profiles)
next
  case (Delete_deployments wh)
  with assms show ?thesis
    by (auto simp: delete_deployments_def deployments_rls remove_nothing_deployments)
next
  case (Insert_user_profile r)
  with assms show ?thesis
    by (auto simp: insert_user_profile_def user_profiles_rls split: if_splits)
next
  case (Insert_deployment r)
  with assms show ?thesis
    by (auto simp: insert_deployment_def deployments_rls split: if_splits)
next
  case (Insert_update_history r)
  with assms show ?thesis
    by (auto simp: insert_update_history_def split: if_splits)
next
  case (Update_user_profiles wh st)
  with assms show ?thesis
    by (auto simp: update_user_profiles_def Let_def split: if_splits)
next
  case (Update_deployments wh st)
  let ?target = "\<lambda>r. wh r \<and> rls_update_old deployments_policies role db r"
  let ?new = "\<lambda>r. (st r)\<lparr>dep_updated_at := Some now\<rparr>"
  from assms Update_deployments
  have ok: "\<not> list_ex (\<lambda>r. ?target r \<and> \<not> rls_update_new deployments_policies role db (?new r)) (deployments db)"
    and db': "deployments db' = map (\<lambda>r. if ?target r then ?new r else r) (deployments db)"
    by (auto simp: update_deployments_def Let_def split: if_splits)
  show ?thesis unfolding db'
  proof (rule filter_map_unchanged)
    fix x assume "x \<in> set (deployments db)" "auth_uid role \<noteq> Some (dep_user_id x)"
    then show "(if ?target x then ?new x else x) = x"
      using assms(1) by (simp add: deployments_rls)
  next
    fix x assume "x \<in> set (deployments db)" "\<not> auth_uid role \<noteq> Some (dep_user_id x)"
    then show "\<not> auth_uid role \<noteq> Some (dep_user_id (if ?target x then ?new x else x))"
      using assms(1) ok by (auto simp: deployments_rls list_ex_iff)
  qed
next
  case (Update_update_history wh st)
  with assms show ?thesis
    by (auto simp: update_update_history_def Let_def split: if_splits)
next
  case (Delete_update_history wh)
  with assms show ?thesis
    by (auto simp: delete_update_history_def)
qed

lemmas store_defs = example_db_def alice_def bob_def alice_subscription_def bob_subscription_def
  alice_deployment_def bob_deployment_def second_deployment_def parentless_entry_def

lemmas rls_defs = rls_select_def rls_insert_def rls_update_old_def rls_update_new_def rls_delete_def

subsection \<open>Row-level security keeps callers apart\<close>

text \<open>
  Claim C4. Let the caller be any role that is subject to row-level security (an
  authenticated user or an anonymous client). Then: the rows it reads from
  \<open>subscriptions\<close> and \<open>deployments\<close> all carry its own \<open>auth.uid()\<close> as \<open>user_id\<close>; an
  insert into either table succeeds only for a row with its own \<open>user_id\<close>; and whatever
  statement it executes on whichever table, the rows of \<open>subscriptions\<close> and
  \<open>deployments\<close> that belong to anyone else are the same afterwards, in the same order:
  none changed, none removed, none added. Every policy of the two tables has an
  expression, and each expression is the test \<open>auth.uid() = user_id\<close>.
\<close>

theorem rls_isolates_other_callers_rows:
  assumes "\<not> bypassrls role"
  shows "(\<forall>r \<in> set (select_subscriptions role db). auth_uid role = Some (sub_user_id r))
    \<and> (\<forall>r \<in> set (select_deployments role db). auth_uid role = Some (dep_user_id r))
    \<and> (\<forall>r db'. insert_subscription role r db = Inr db' \<longrightarrow> auth_uid role = Some (sub_user_id r))
    \<and> (\<forall>r db'. insert_deployment role r db = Inr db' \<longrightarrow> auth_uid role = Some (dep_user_id r))
    \<and> (\<forall>now stmt db'. execute role now stmt db = Inr db' \<longrightarrow>
          filter (\<lambda>r. auth_uid role \<noteq> Some (sub_user_id r)) (subscriptions db')
            = filter (\<lambda>r. auth_uid role \<noteq> Some (sub_user_id r)) (subscriptions db)
        \<and> filter (\<lambda>r. auth_uid role \<noteq> Some (dep_user_id r)) (deployments db')
            = filter (\<lambda>r. auth_uid role \<noteq> Some (dep_user_id r)) (deployments db))
    \<and> (\<forall>p \<in> set subscriptions_policies. \<forall>r.
          (case policy_using p of None \<Rightarrow> True
           | Some e \<Rightarrow> e role db r = (auth_uid role = Some (sub_user_id r)))
        \<and> (case policy_with_check p of None \<Rightarrow> True
           | Some e \<Rightarrow> e role db r = (auth_uid role = Some (sub_user_id r)))
        \<and> (policy_using p \<noteq> None \<or> policy_with_check p \<noteq> None))
    \<and> (\<forall>p \<in> set deployments_policies. \<forall>r.
          (case policy_using p of None \<Rightarrow> True
           | Some e \<Rightarrow> e role db r = (auth_uid role = Some (dep_user_id r)))
        \<and> (case policy_with_check p of None \<Rightarrow> True
           | Some e \<Rightarrow> e role db r = (auth_uid role = Some (dep_user_id r)))
        \<and> (policy_using p \<noteq> None \<or> policy_with_check p \<noteq> None))"
proof (intro conjI)
  show "\<forall>r \<in> set (select_subscriptions role db). auth_uid role = Some (sub_user_id r)"
    using assms by (simp add: select_subscriptions_def subscriptions_rls)
  show "\<forall>r \<in> set (select_deployments role db). auth_uid role = Some (dep_user_id r)"
    using assms by (simp add: select_deployments_def deployments_rls)
  show "\<forall>r db'. insert_subscription role r db = Inr db' \<longrightarrow> auth_uid role = Some (sub_user_id r)"
    using assms by (auto simp: insert_subscription_def subscriptions_rls split: if_splits)
  show "\<forall>r db'. insert_deployment role r db = Inr db' \<longrightarrow> auth_uid role = Some (dep_user_id r)"
    using assms by (auto simp: insert_deployment_def deployments_rls split: if_splits)
  show "\<forall>now stmt db'. execute role now stmt db = Inr db' \<longrightarrow>
          filter (\<lambda>r. auth_uid role \<noteq> Some (sub_user_id r)) (subscriptions db')
            = filter (\<lambda>r. auth_uid role \<noteq> Some (sub_user_id r)) (subscriptions db)
        \<and> filter (\<lambda>r. auth_uid role \<noteq> Some (dep_user_id r)) (deployments db')
            = filter (\<lambda>r. auth_uid role \<noteq> Some (dep_user_id r)) (deployments db)"
    using assms execute_others_subscriptions execute_others_deployments by blast
  show "\<forall>p \<in> set subscriptions_policies. \<forall>r.
          (case policy_using p of None \<Rightarrow> True
           | Some e \<Rightarrow> e role db r = (auth_uid role = Some (sub_user_id r)))
        \<and> (case policy_with_check p of None \<Rightarrow> True
           | Some e \<Rightarrow> e role db r = (auth_uid role = Some (sub_user_id r)))
        \<and> (policy_using p \<noteq> None \<or> policy_with_check p \<noteq> None)"
    by (auto simp: subscriptions_policies_def sql_eq_true_def)
  show "\<forall>p \<in> set deployments_policies. \<forall>r.
          (case policy_using p of None \<Rightarrow> True
           | Some e \<Rightarrow> e role db r = (auth_uid role = Some (dep_user_id r)))
        \<and> (case policy_with_check p of None \<Rightarrow> True
           | Some e \<Rightarrow> e role db r = (auth_uid role = Some (dep_user_id r)))
        \<and> (policy_using p \<noteq> None \<or> policy_with_check p \<noteq> None)"
    by (auto simp: deployments_policies_def sql_eq_true_def)
qed

theorem rls_isolates_other_callers_rows_witness:
  "\<not> bypassrls (Authenticated 1)
   \<and> select_subscriptions (Authenticated 1) example_db = [alice_subscription]
   \<and> select_deployments (Authenticated 1) example_db = [alice_deployment]
   \<and> insert_deployment (Authenticated 1) (second_deployment\<lparr>dep_user_id := 2\<rparr>) example_db
       = Inl Row_security_violation
   \<and> execute (Authenticated 1) 200
        (Update_deployments (\<lambda>r. True) (\<lambda>r. r\<lparr>dep_status := Some ''stopped''\<rparr>)) example_db
       = Inr (example_db\<lparr>deployments :=
                [alice_deployment\<lparr>dep_status := Some ''stopped'', dep_updated_at := Some 200\<rparr>,
                 bob_deployment]\<rparr>)
   \<and> filter (\<lambda>r. auth_uid (Authenticated 1) \<noteq> Some (dep_user_id r))
        (deployments (example_db\<lparr>deployments :=
                [alice_deployment\<lparr>dep_status := Some ''stopped'', dep_updated_at := Some 200\<rparr>,
                 bob_deployment]\<rparr>))
       = filter (\<lambda>r. auth_uid (Authenticated 1) \<noteq> Some (dep_user_id r)) (deployments example_db)
   \<and> filter (\<lambda>r. auth_uid (Authenticated 1) \<noteq> Some (dep_user_id r)) (deployments example_db)
       = [bob_deployment]"
proof -
  have h: "\<not> bypassrls (Authenticated 1)" by simp
  note t = rls_isolates_other_callers_rows [OF h, of example_db]
  have w1: "select_subscriptions (Authenticated 1) example_db = [alice_subscription]"
    by (simp add: store_defs rls_defs policy_defs select_subscriptions_def)
  have w2: "select_deployments (Authenticated 1) example_db = [alice_deployment]"
    by (simp add: store_defs rls_defs policy_defs select_deployments_def)
  have w3: "insert_deployment (Authenticated 1) (second_deployment\<lparr>dep_user_id := 2\<rparr>) example_db
       = Inl Row_security_violation"
    by (simp add: store_defs rls_defs policy_defs insert_deployment_def)
  have w4: "execute (Authenticated 1) 200
        (Update_deployments (\<lambda>r. True) (\<lambda>r. r\<lparr>dep_status := Some ''stopped''\<rparr>)) example_db
       = Inr (example_db\<lparr>deployments :=
                [alice_deployment\<lparr>dep_status := Some ''stopped'', dep_updated_at := Some 200\<rparr>,
                 bob_deployment]\<rparr>)"
    by (simp add: store_defs rls_defs policy_defs update_deployments_def Let_def)
  from t w4 have w5: "filter (\<lambda>r. auth_uid (Authenticated 1) \<noteq> Some (dep_user_id r))
        (deployments (example_db\<lparr>deployments :=
                [alice_deployment\<lparr>dep_status := Some ''stopped'', dep_updated_at := Some 200\<rparr>,
                 bob_deployment]\<rparr>))
       = filter (\<lambda>r. auth_uid (Authenticated 1) \<noteq> Some (dep_user_id r)) (deployments example_db)"
    by blast
  have w6: "filter (\<lambda>r. auth_uid (Authenticated 1) \<noteq> Some (dep_user_id r)) (deployments example_db)
       = [bob_deployment]"
    by (simp add: store_defs)
  from h w1 w2 w3 w4 w5 w6 show ?thesis by (intro conjI)
qed

subsection \<open>A deployment's reference to a subscription\<close>





subsection \<open>The status column of a deployment\<close>

lemma status_update_passes_policies:
  "rls_update_new deployments_policies role db (r\<lparr>dep_status := s, dep_updated_at := t\<rparr>)
     = rls_update_old deployments_policies role db r"
  by (simp add: rls_update_new_def rls_update_old_def policy_defs)

lemma update_status_never_fails:
  assumes "distinct (map dep_id (deployments db))"
  shows "update_deployments role now wh (\<lambda>x. x\<lparr>dep_status := s\<rparr>) db
     = Inr (db\<lparr>deployments :=
               map (\<lambda>x. if wh x \<and> rls_update_old deployments_policies role db x
                        then x\<lparr>dep_status := s, dep_updated_at := Some now\<rparr> else x)
                 (deployments db)\<rparr>)"
proof -
  let ?target = "\<lambda>r. wh r \<and> rls_update_old deployments_policies role db r"
  let ?new = "\<lambda>r. (r\<lparr>dep_status := s\<rparr>)\<lparr>dep_updated_at := Some now\<rparr>"
  let ?rows = "map (\<lambda>r. if ?target r then ?new r else r) (deployments db)"
  have "map dep_id (map (\<lambda>r. if ?target r then ?new r else r) xs) = map dep_id xs" for xs
    by (induction xs) auto
  then have ids: "map dep_id ?rows = map dep_id (deployments db)" .
  have 1: "\<not> list_ex (\<lambda>r. ?target r \<and> \<not> rls_update_new deployments_policies role db (?new r)) (deployments db)"
    by (simp add: list_ex_iff status_update_passes_policies)
  have 2: "distinct (map dep_id ?rows)" unfolding ids by (rule assms)
  have 3: "\<not> list_ex (\<lambda>r. dep_id r \<notin> set (map dep_id ?rows)
                \<and> list_ex (\<lambda>h. uh_deployment_id h = Some (dep_id r)) (update_history db)) (deployments db)"
    unfolding ids by (simp add: list_ex_iff)
  show ?thesis
    unfolding update_deployments_def Let_def using 1 2 3 by (simp add: list_ex_iff del: map_map)
qed

text \<open>
  The first user's deployment has failed; she sets it to \<open>running\<close>. She also inserts a
  deployment whose status is none of the five named ones.
\<close>

theorem deployment_status_failed_to_running_accepted:
  "dep_status alice_deployment = Some ''failed''
   \<and> update_deployments (Authenticated 1) 200 (\<lambda>r. dep_id r = 20)
        (\<lambda>r. r\<lparr>dep_status := Some ''running''\<rparr>) example_db
       = Inr (example_db\<lparr>deployments :=
                [alice_deployment\<lparr>dep_status := Some ''running'', dep_updated_at := Some 200\<rparr>,
                 bob_deployment]\<rparr>)
   \<and> insert_deployment (Authenticated 1) (second_deployment\<lparr>dep_status := Some ''paused''\<rparr>) example_db
       = Inr (example_db\<lparr>deployments :=
                [alice_deployment, bob_deployment,
                 second_deployment\<lparr>dep_status := Some ''paused''\<rparr>]\<rparr>)"
  by (simp add: store_defs rls_defs policy_defs update_deployments_def insert_deployment_def Let_def)

lemma insert_ignores_status:
  "isl (insert_deployment role (r\<lparr>dep_status := s\<rparr>) db) = isl (insert_deployment role r db)"
  by (simp add: insert_deployment_def rls_insert_def policy_defs)

text \<open>
  Claim C6, amended. \<open>deployments.status\<close> is a nullable text column that nothing
  constrains. An \<open>UPDATE\<close> that sets it, to any text or to \<open>NULL\<close> and whatever the value
  before, never fails on a table whose keys are distinct: it rewrites the status of
  every row the \<open>WHERE\<close> clause selects and the caller may update, and stamps
  \<open>updated_at\<close>. An authenticated caller may update exactly the rows it owns, the service
  role every row. Whether an \<open>INSERT\<close> is accepted does not depend on the row's status.
\<close>

theorem deployment_status_unconstrained:
  "(distinct (map dep_id (deployments db)) \<longrightarrow>
      update_deployments role now wh (\<lambda>x. x\<lparr>dep_status := s\<rparr>) db
        = Inr (db\<lparr>deployments :=
                  map (\<lambda>x. if wh x \<and> rls_update_old deployments_policies role db x
                           then x\<lparr>dep_status := s, dep_updated_at := Some now\<rparr> else x)
                    (deployments db)\<rparr>))
   \<and> rls_update_old deployments_policies (Authenticated u) db x = (dep_user_id x = u)
   \<and> rls_update_old deployments_policies Service_role db x
   \<and> isl (insert_deployment role (r\<lparr>dep_status := s\<rparr>) db) = isl (insert_deployment role r db)"
  using update_status_never_fails [of db role now wh s] insert_ignores_status [of role s r db]
  by (auto simp: rls_update_old_def policy_defs)

theorem deployment_status_unconstrained_witness:
  "distinct (map dep_id (deployments example_db))
   \<and> update_deployments (Authenticated 1) 200 (\<lambda>r. dep_id r = 20)
        (\<lambda>r. r\<lparr>dep_status := Some ''pending''\<rparr>) example_db
       = Inr (example_db\<lparr>deployments :=
                [alice_deployment\<lparr>dep_status := Some ''pending'', dep_updated_at := Some 200\<rparr>,
                 bob_deployment]\<rparr>)"
proof -
  have d: "distinct (map dep_id (deployments example_db))"
    by (simp add: store_defs)
  have o: "rls_update_old deployments_policies (Authenticated 1) example_db x = (dep_user_id x = 1)" for x
    using deployment_status_unconstrained [of example_db "Authenticated 1" 200 "\<lambda>r. dep_id r = 20" "Some ''pending''" 1 x]
    by blast
  have "update_deployments (Authenticated 1) 200 (\<lambda>r. dep_id r = 20)
        (\<lambda>r. r\<lparr>dep_status := Some ''pending''\<rparr>) example_db
     = Inr (example_db\<lparr>deployments :=
                  map (\<lambda>x. if dep_id x = 20 \<and> rls_update_old deployments_policies (Authenticated 1) example_db x
                           then x\<lparr>dep_status := Some ''pending'', dep_updated_at := Some 200\<rparr> else x)
                    (deployments example_db)\<rparr>)"
    using d deployment_status_unconstrained [of example_db "Authenticated 1" 200 "\<lambda>r. dep_id r = 20" "Some ''pending''"]
    by blast
  also have "\<dots> = Inr (example_db\<lparr>deployments :=
                [alice_deployment\<lparr>dep_status := Some ''pending'', dep_updated_at := Some 200\<rparr>,
                 bob_deployment]\<rparr>)"
    unfolding o by (simp add: store_defs)
  finally show ?thesis using d by blast
qed

subsection \<open>The life of a subscription row\<close>

text \<open>
  Deleting the first user's profile, as the service role, deletes her subscription with
  it (and her deployment, and its history).
\<close>

theorem subscription_deleted_with_owner_profile:
  "alice_subscription \<in> set (subscriptions example_db)
   \<and> delete_user_profiles Service_role 200 (\<lambda>r. up_id r = 1) example_db
       = Inr \<lparr>auth_users = [1, 2], user_profiles = [bob], subscriptions = [bob_subscription],
              deployments = [bob_deployment], update_history = []\<rparr>"
  by (simp add: store_defs rls_defs policy_defs delete_user_profiles_def remove_user_profiles_def
        remove_subscriptions_def remove_deployments_def Let_def)

lemma rls_bound_subscriptions_only_grow:
  assumes "\<not> bypassrls role" and "execute role now stmt db = Inr db'"
  shows "subscriptions db' = subscriptions db
       \<or> (\<exists>r. stmt = Insert_subscription r \<and> subscriptions db' = subscriptions db @ [r])"
proof (cases stmt)
  case (Insert_subscription r)
  with assms show ?thesis
    by (auto simp: insert_subscription_def split: if_splits)
next
  case (Update_subscriptions wh st)
  with assms show ?thesis
    by (auto simp: update_subscriptions_def subscriptions_rls Let_def split: if_splits)
next
  case (Delete_subscriptions wh)
  with assms show ?thesis
    by (auto simp: delete_subscriptions_def subscriptions_rls remove_nothing_subscriptions)
next
  case (Delete_user_profiles wh)
  with assms show ?thesis
    by (auto simp: delete_user_profiles_def user_profiles_rls remove_nothing_user_profiles)
next
  case (Delete_deployments wh)
  with assms show ?thesis
    by (auto simp: delete_deployments_def deployments_rls remove_nothing_deployments)
next
  case (Insert_user_profile r)
  with assms show ?thesis
    by (auto simp: insert_user_profile_def split: if_splits)
next
  case (Insert_deployment r)
  with assms show ?thesis
    by (auto simp: insert_deployment_def split: if_splits)
next
  case (Insert_update_history r)
  with assms show ?thesis
    by (auto simp: insert_update_history_def split: if_splits)
next
  case (Update_user_profiles wh st)
  with assms show ?thesis
    by (auto simp: update_user_profiles_def Let_def split: if_splits)
next
  case (Update_deployments wh st)
  with assms show ?thesis
    by (auto simp: update_deployments_def Let_def split: if_splits)
next
  case (Update_update_history wh st)
  with assms show ?thesis
    by (auto simp: update_update_history_def Let_def split: if_splits)
next
  case (Delete_update_history wh)
  with assms show ?thesis
    by (auto simp: delete_update_history_def)
qed

lemma delete_user_profiles_cascades:
  assumes "delete_user_profiles role now wh db = Inr db'"
  shows "subscriptions db'
       = filter (\<lambda>s. sub_user_id s \<notin> up_id ` {r \<in> set (user_profiles db).
                          wh r \<and> rls_delete user_profiles_policies role db r})
           (subscriptions db)"
  using assms
  by (auto simp: delete_user_profiles_def remove_user_profiles_def remove_subscriptions_def
        remove_deployments_def Let_def intro!: filter_cong)

text \<open>
  Claim C7, amended. A caller subject to row-level security can neither delete nor
  update a subscription row: whatever statement it executes, \<open>subscriptions\<close> is the same
  afterwards or has the one row it inserted appended. Subscription rows are hard-deleted
  all the same: a delete on \<open>user_profiles\<close> removes, with each profile it removes, every
  subscription of that user, and keeps the others.
\<close>

theorem subscriptions_deleted_by_cascade_only:
  "(\<not> bypassrls role \<and> execute role now stmt db = Inr db' \<longrightarrow>
      subscriptions db' = subscriptions db
      \<or> (\<exists>r. stmt = Insert_subscription r \<and> subscriptions db' = subscriptions db @ [r]))
   \<and> (delete_user_profiles role2 now wh db = Inr db2 \<longrightarrow>
      subscriptions db2
        = filter (\<lambda>s. sub_user_id s \<notin> up_id ` {r \<in> set (user_profiles db).
                          wh r \<and> rls_delete user_profiles_policies role2 db r})
            (subscriptions db))"
  using rls_bound_subscriptions_only_grow delete_user_profiles_cascades by blast

theorem subscriptions_deleted_by_cascade_only_witness:
  "\<not> bypassrls (Authenticated 1)
   \<and> execute (Authenticated 1) 200 (Delete_subscriptions (\<lambda>r. True)) example_db = Inr example_db
   \<and> delete_user_profiles Service_role 200 (\<lambda>r. up_id r = 1) example_db
       = Inr \<lparr>auth_users = [1, 2], user_profiles = [bob], subscriptions = [bob_subscription],
              deployments = [bob_deployment], update_history = []\<rparr>
   \<and> [bob_subscription]
       = filter (\<lambda>s. sub_user_id s \<notin> up_id ` {r \<in> set (user_profiles example_db).
                          up_id r = 1 \<and> rls_delete user_profiles_policies Service_role example_db r})
           (subscriptions example_db)"
proof -
  have h: "\<not> bypassrls (Authenticated 1)" by simp
  have e: "execute (Authenticated 1) 200 (Delete_subscriptions (\<lambda>r. True)) example_db = Inr example_db"
    by (simp add: store_defs rls_defs policy_defs delete_subscriptions_def remove_subscriptions_def
          Let_def)
  have d: "delete_user_profiles Service_role 200 (\<lambda>r. up_id r = 1) example_db
       = Inr \<lparr>auth_users = [1, 2], user_profiles = [bob], subscriptions = [bob_subscription],
              deployments = [bob_deployment], update_history = []\<rparr>"
    by (simp add: store_defs rls_defs policy_defs delete_user_profiles_def remove_user_profiles_def
          remove_subscriptions_def remove_deployments_def Let_def)
  from d subscriptions_deleted_by_cascade_only
           [of "Authenticated 1" 200 "Delete_subscriptions (\<lambda>r. True)" example_db example_db
               Service_role "\<lambda>r. up_id r = 1"
               "\<lparr>auth_users = [1, 2], user_profiles = [bob], subscriptions = [bob_subscription],
                 deployments = [bob_deployment], update_history = []\<rparr>"]
  have c: "[bob_subscription]
       = filter (\<lambda>s. sub_user_id s \<notin> up_id ` {r \<in> set (user_profiles example_db).
                          up_id r = 1 \<and> rls_delete user_profiles_policies Service_role example_db r})
           (subscriptions example_db)"
    by simp
  from h e d c show ?thesis by (intro conjI)
qed

subsection \<open>History entries and their parent\<close>

text \<open>
  Deleting deployments leaves no history entry that names one of them, and a caller
  subject to row-level security cannot add, change or remove a history entry.
\<close>

lemma remove_deployments_cascades:
  assumes "h \<in> set (update_history (remove_deployments gone db))"
    and "d \<in> set (deployments db)" and "gone d"
  shows "uh_deployment_id h \<noteq> Some (dep_id d)"
  using assms by (auto simp: remove_deployments_def Let_def)

lemma rls_bound_history_unchanged:
  assumes "\<not> bypassrls role" and "execute role now stmt db = Inr db'"
  shows "update_history db' = update_history db"
proof (cases stmt)
  case (Insert_subscription r)
  with assms show ?thesis
    by (auto simp: insert_subscription_def split: if_splits)
next
  case (Update_subscriptions wh st)
  with assms show ?thesis
    by (auto simp: update_subscriptions_def Let_def split: if_splits)
next
  case (Delete_subscriptions wh)
  with assms show ?thesis
    by (auto simp: delete_subscriptions_def subscriptions_rls remove_nothing_subscriptions)
next
  case (Delete_user_profiles wh)
  with assms show ?thesis
    by (auto simp: delete_user_profiles_def user_profiles_rls remove_nothing_user_profiles)
next
  case (Delete_deployments wh)
  with assms show ?thesis
    by (auto simp: delete_deployments_def deployments_rls remove_nothing_deployments)
next
  case (Insert_user_profile r)
  with assms show ?thesis
    by (auto simp: insert_user_profile_def split: if_splits)
next
  case (Insert_deployment r)
  with assms show ?thesis
    by (auto simp: insert_deployment_def split: if_splits)
next
  case (Insert_update_history r)
  with assms show ?thesis
    by (auto simp: insert_update_history_def update_history_rls split: if_splits)
next
  case (Update_user_profiles wh st)
  with assms show ?thesis
    by (auto simp: update_user_profiles_def Let_def split: if_splits)
next
  case (Update_deployments wh st)
  with assms show ?thesis
    by (auto simp: update_deployments_def Let_def split: if_splits)
next
  case (Update_update_history wh st)
  with assms show ?thesis
    by (auto simp: update_update_history_def update_history_rls Let_def split: if_splits)
next
  case (Delete_update_history wh)
  with assms show ?thesis
    by (auto simp: delete_update_history_def update_history_rls)
qed

text \<open>
  Claim C8. Every history entry should reference an existing deployment. The column
  \<open>update_history.deployment_id\<close> is nullable, though: the service role inserts an entry
  whose \<open>deployment_id\<close> is \<open>NULL\<close>, the insert is accepted, and the table then holds an
  entry with no parent, which no caller subject to row-level security can see.
\<close>

theorem update_history_entry_without_parent_accepted:
  "insert_update_history Service_role parentless_entry example_db
     = Inr (example_db\<lparr>update_history :=
              [\<lparr>uh_id = 1, uh_deployment_id = Some 20, uh_updated_at = Some 146,
                uh_details = Some ''{}''\<rparr>,
               parentless_entry]\<rparr>)
   \<and> uh_deployment_id parentless_entry = None
   \<and> select_update_history (Authenticated 1)
        (example_db\<lparr>update_history :=
              [\<lparr>uh_id = 1, uh_deployment_id = Some 20, uh_updated_at = Some 146,
                uh_details = Some ''{}''\<rparr>,
               parentless_entry]\<rparr>)
       = [\<lparr>uh_id = 1, uh_deployment_id = Some 20, uh_updated_at = Some 146,
           uh_details = Some ''{}''\<rparr>]
   \<and> select_update_history (Authenticated 2)
        (example_db\<lparr>update_history :=
              [\<lparr>uh_id = 1, uh_deployment_id = Some 20, uh_updated_at = Some 146,
                uh_details = Some ''{}''\<rparr>,
               parentless_entry]\<rparr>)
       = []"
  by (simp add: store_defs rls_defs policy_defs insert_update_history_def select_update_history_def)

section \<open>Properties of the deployments page\<close>

text \<open>
  The cards appear in the order of \<open>dummyDeployments\<close>, oldest first: the sequence is not
  in descending order of creation.
\<close>

theorem deployments_page_not_newest_first:
  "map card_created Deployments
     = [''Created: 2024-01-15'', ''Created: 2024-01-18'', ''Created: 2024-01-20'']
   \<and> \<not> sorted_wrt (\<lambda>earlier later. iso_date earlier \<ge> iso_date later)
         (map dd_created dummyDeployments)"
  by (simp add: Deployments_def dummyDeployments_def render_card_def iso_date_def)

text \<open>
  Claim C5, amended. The deployments page renders a fixed sequence: the three records of
  \<open>dummyDeployments\<close>, with keys 1, 2 and 3, in the order they are written, which is
  strictly ascending in creation date. The sequence depends neither on a caller nor on
  the store, and rendering it changes nothing. The badges show the statuses \<open>running\<close>,
  \<open>deploying\<close> and \<open>stopped\<close> in green, yellow and red.
\<close>

theorem deployments_page_renders_fixed_cards:
  "map card_key Deployments = [''1'', ''2'', ''3'']
   \<and> map card_heading Deployments
       = [''Notary AI Assistant'', ''Smart Document Processor'', ''ID Verification System'']
   \<and> map card_badge Deployments = [''running'', ''deploying'', ''stopped'']
   \<and> map card_badge_class Deployments
       = [''px-3 py-1 rounded-full text-sm bg-green-100 text-green-800'',
          ''px-3 py-1 rounded-full text-sm bg-yellow-100 text-yellow-800'',
          ''px-3 py-1 rounded-full text-sm bg-red-100 text-red-800'']
   \<and> map card_plan Deployments = [''Pro'', ''Basic'', ''Enterprise'']
   \<and> map card_href Deployments = map dd_url dummyDeployments
   \<and> map card_link Deployments = map dd_url dummyDeployments
   \<and> length Deployments = length dummyDeployments
   \<and> sorted_wrt (\<lambda>earlier later. iso_date earlier < iso_date later)
        (map dd_created dummyDeployments)"
  by (simp add: Deployments_def dummyDeployments_def render_card_def iso_date_def)

section \<open>Properties of the deployment orchestrator\<close>

text \<open>
  Claim C2. When the provisioning request fails, \<open>deploy\<close> fails with
  \<open>ProvisioningFailed\<close> and the store is the one it started from. Whenever the store
  after \<open>deploy\<close> differs from the store before, the provider has confirmed, and the
  difference is one appended deployment row with status \<open>deploying\<close> that carries the
  reference and URL the provider returned.
\<close>

theorem deploy_writes_after_confirm:
  "(provider template = None \<longrightarrow>
      deploy provider new_id now caller caller_email template db = (Inl ProvisioningFailed, db))
   \<and> (snd (deploy provider new_id now caller caller_email template db) \<noteq> db \<longrightarrow>
      (\<exists>p row. provider template = Some p
         \<and> deployments (snd (deploy provider new_id now caller caller_email template db))
             = deployments db @ [row]
         \<and> dep_status row = Some ''deploying''
         \<and> dep_droplet_id row = Some (resource_reference p)
         \<and> dep_url row = Some (resource_url p)
         \<and> dep_user_id row = caller))"
  by (cases "provider template") (simp_all add: deploy_def)

theorem deploy_writes_after_confirm_witness:
  "deploy (\<lambda>t. None) 22 200 1 ''alice@example.com'' ''notary-assistant-basic'' example_db
     = (Inl ProvisioningFailed, example_db)
   \<and> map dep_status
        (deployments (snd (deploy
           (\<lambda>t. Some \<lparr>resource_reference = ''4713'', resource_url = ''https://c.example''\<rparr>)
           22 200 1 ''alice@example.com'' ''notary-assistant-basic'' example_db)))
       = [Some ''failed'', Some ''running'', Some ''deploying'']"
proof -
  have "deploy (\<lambda>t. None) 22 200 1 ''alice@example.com'' ''notary-assistant-basic'' example_db
     = (Inl ProvisioningFailed, example_db)"
    using deploy_writes_after_confirm
            [of "\<lambda>t. None" "''notary-assistant-basic''" 22 200 1 "''alice@example.com''" example_db]
    by simp
  moreover have "map dep_status
        (deployments (snd (deploy
           (\<lambda>t. Some \<lparr>resource_reference = ''4713'', resource_url = ''https://c.example''\<rparr>)
           22 200 1 ''alice@example.com'' ''notary-assistant-basic'' example_db)))
       = [Some ''failed'', Some ''running'', Some ''deploying'']"
    by (simp add: deploy_def store_defs)
  ultimately show ?thesis by (intro conjI)
qed

end
